theory Spec2Isabelle
  imports Complex_Main
begin

section \<open>JavaScript values\<close>

text \<open>
  A JavaScript number is modelled by its exact value: a finite double is the rational it
  denotes, and the three non-finite values are kept apart. Binary rounding and the sign of
  zero are not modelled; every operation below is the exact one on finite values and the
  IEEE one on \<open>NaN\<close> and the infinities.
\<close>

datatype jsnum = NaN | NInf | Fin rat | PInf

fun jneg :: "jsnum \<Rightarrow> jsnum" where
  "jneg NaN = NaN"
| "jneg NInf = PInf"
| "jneg PInf = NInf"
| "jneg (Fin a) = Fin (- a)"

fun jadd :: "jsnum \<Rightarrow> jsnum \<Rightarrow> jsnum" where
  "jadd NaN _ = NaN"
| "jadd _ NaN = NaN"
| "jadd PInf NInf = NaN"
| "jadd NInf PInf = NaN"
| "jadd PInf _ = PInf"
| "jadd _ PInf = PInf"
| "jadd NInf _ = NInf"
| "jadd _ NInf = NInf"
| "jadd (Fin a) (Fin b) = Fin (a + b)"

definition jsub :: "jsnum \<Rightarrow> jsnum \<Rightarrow> jsnum" where
  "jsub a b = jadd a (jneg b)"

text \<open>The sign of a product or quotient with an infinite operand.\<close>

definition signed_inf :: "bool \<Rightarrow> jsnum" where
  "signed_inf positive = (if positive then PInf else NInf)"

fun jmul :: "jsnum \<Rightarrow> jsnum \<Rightarrow> jsnum" where
  "jmul NaN _ = NaN"
| "jmul _ NaN = NaN"
| "jmul (Fin a) (Fin b) = Fin (a * b)"
| "jmul (Fin a) PInf = (if a = 0 then NaN else signed_inf (0 < a))"
| "jmul (Fin a) NInf = (if a = 0 then NaN else signed_inf (a < 0))"
| "jmul PInf (Fin b) = (if b = 0 then NaN else signed_inf (0 < b))"
| "jmul NInf (Fin b) = (if b = 0 then NaN else signed_inf (b < 0))"
| "jmul PInf PInf = PInf"
| "jmul NInf NInf = PInf"
| "jmul PInf NInf = NInf"
| "jmul NInf PInf = NInf"

fun jdiv :: "jsnum \<Rightarrow> jsnum \<Rightarrow> jsnum" where
  "jdiv NaN _ = NaN"
| "jdiv _ NaN = NaN"
| "jdiv (Fin a) (Fin b) =
     (if b = 0 then (if a = 0 then NaN else signed_inf (0 < a)) else Fin (a / b))"
| "jdiv (Fin a) PInf = Fin 0"
| "jdiv (Fin a) NInf = Fin 0"
| "jdiv PInf (Fin b) = signed_inf (0 \<le> b)"
| "jdiv NInf (Fin b) = signed_inf (b < 0)"
| "jdiv PInf PInf = NaN"
| "jdiv NInf NInf = NaN"
| "jdiv PInf NInf = NaN"
| "jdiv NInf PInf = NaN"

text \<open>The relational operators: every comparison with \<open>NaN\<close> is false.\<close>

fun jlt :: "jsnum \<Rightarrow> jsnum \<Rightarrow> bool" where
  "jlt NaN _ = False"
| "jlt _ NaN = False"
| "jlt PInf _ = False"
| "jlt _ NInf = False"
| "jlt NInf _ = True"
| "jlt _ PInf = True"
| "jlt (Fin a) (Fin b) = (a < b)"

fun jle :: "jsnum \<Rightarrow> jsnum \<Rightarrow> bool" where
  "jle NaN _ = False"
| "jle _ NaN = False"
| "jle NInf _ = True"
| "jle _ PInf = True"
| "jle PInf _ = False"
| "jle _ NInf = False"
| "jle (Fin a) (Fin b) = (a \<le> b)"

definition jgt :: "jsnum \<Rightarrow> jsnum \<Rightarrow> bool" where
  "jgt a b = jlt b a"

definition jge :: "jsnum \<Rightarrow> jsnum \<Rightarrow> bool" where
  "jge a b = jle b a"

text \<open>Truthiness of a number, the operator \<open>||\<close> between numbers, \<open>isNaN\<close> and \<open>Math.max\<close>.\<close>

definition truthy :: "jsnum \<Rightarrow> bool" where
  "truthy n = (n \<noteq> NaN \<and> n \<noteq> Fin 0)"

definition jor :: "jsnum \<Rightarrow> jsnum \<Rightarrow> jsnum" where
  "jor a b = (if truthy a then a else b)"

definition isNaN :: "jsnum \<Rightarrow> bool" where
  "isNaN n = (n = NaN)"

definition Math_max :: "jsnum \<Rightarrow> jsnum \<Rightarrow> jsnum" where
  "Math_max a b = (if a = NaN \<or> b = NaN then NaN else if jlt a b then b else a)"

text \<open>
  \<open>Number(x.toFixed(d))\<close>: the number that the decimal string written by \<open>toFixed\<close> denotes.
  \<open>toFixed\<close> takes the integer \<open>n\<close> with \<open>n / 10^d\<close> nearest to the magnitude, the larger one
  on a tie, and puts the sign back; from \<open>10^21\<close> on, and on non-finite values, it writes the
  number itself.
\<close>

definition round_half_up :: "nat \<Rightarrow> rat \<Rightarrow> rat" where
  "round_half_up d x = of_int \<lfloor>x * 10 ^ d + 1 / 2\<rfloor> / 10 ^ d"

fun toFixed :: "nat \<Rightarrow> jsnum \<Rightarrow> jsnum" where
  "toFixed d (Fin x) =
     (if 10 ^ 21 \<le> \<bar>x\<bar> then Fin x
      else if x < 0 then Fin (- round_half_up d (- x))
      else Fin (round_half_up d x))"
| "toFixed d n = n"

text \<open>
  An object field that may be absent is an \<open>option\<close>; \<open>None\<close> is \<open>undefined\<close>. A numeric
  field holds the number that \<open>Number(...)\<close> reads from it.
\<close>

definition Number_of :: "jsnum option \<Rightarrow> jsnum" where
  "Number_of v = (case v of None \<Rightarrow> NaN | Some n \<Rightarrow> n)"

text \<open>\<open>v ?? d\<close> for a numeric field.\<close>

definition nullish :: "'a option \<Rightarrow> 'a \<Rightarrow> 'a" where
  "nullish v d = (case v of None \<Rightarrow> d | Some x \<Rightarrow> x)"

subsection \<open>Strings\<close>

text \<open>
  Strings are byte strings; \<open>toUpperCase\<close>, \<open>trim\<close> and \<open>parseInt\<close> are modelled on ASCII.
\<close>

definition upper_char :: "char \<Rightarrow> char" where
  "upper_char c =
     (let n = (of_char c :: nat) in if 97 \<le> n \<and> n \<le> 122 then char_of (n - 32) else c)"

definition toUpperCase :: "string \<Rightarrow> string" where
  "toUpperCase s = map upper_char s"

definition is_space :: "char \<Rightarrow> bool" where
  "is_space c = (let n = (of_char c :: nat) in n = 32 \<or> (9 \<le> n \<and> n \<le> 13))"

definition trim :: "string \<Rightarrow> string" where
  "trim s = rev (dropWhile is_space (rev (dropWhile is_space s)))"

definition is_digit :: "char \<Rightarrow> bool" where
  "is_digit c = (let n = (of_char c :: nat) in 48 \<le> n \<and> n \<le> 57)"

definition digit_val :: "char \<Rightarrow> nat" where
  "digit_val c = of_char c - 48"

definition digits_val :: "string \<Rightarrow> nat" where
  "digits_val ds = foldl (\<lambda>acc c. 10 * acc + digit_val c) 0 ds"

text \<open>
  \<open>parseInt(s, 10)\<close>: leading white space is skipped, one sign is read, then the longest
  run of decimal digits; with no digit the result is \<open>NaN\<close>.
\<close>

definition parseInt :: "string \<Rightarrow> jsnum" where
  "parseInt s =
     (let t = dropWhile is_space s;
          negative = (t \<noteq> [] \<and> hd t = CHR ''-'');
          u = (if t \<noteq> [] \<and> (hd t = CHR ''-'' \<or> hd t = CHR ''+'') then tl t else t);
          z = takeWhile is_digit u
      in if z = [] then NaN
         else if negative then Fin (- of_nat (digits_val z))
         else Fin (of_nat (digits_val z)))"

section \<open>The order window (\<open>OpenOrderBottomWindow\<close>)\<close>

subsection \<open>Data\<close>

text \<open>
  A value placed in a request payload. \<open>JStrOfNum n\<close> is the string \<open>String(n)\<close> of a
  number, kept by the number it spells.
\<close>

datatype jsval =
    JUndefined
  | JNum jsnum
  | JStr string
  | JStrOfNum jsnum
  | JObj "(string \<times> jsval) list"

type_synonym payload = "(string \<times> jsval) list"

definition jstr_opt :: "string option \<Rightarrow> jsval" where
  "jstr_opt v = (case v of None \<Rightarrow> JUndefined | Some s \<Rightarrow> JStr s)"

text \<open>
  The prop \<open>selectedOrder\<close>. \<open>meta_lot_size\<close> and \<open>meta_tradingSymbol\<close> are
  \<open>meta?.selectedStock?.lot_size\<close> and \<open>meta?.selectedStock?.tradingSymbol\<close>.
\<close>

record selectedOrder =
  order_id :: "string option"
  symbol :: "string option"
  side :: "string option"
  product :: "string option"
  quantity :: "jsnum option"
  price :: "jsnum option"
  jobbin_price :: "jsnum option"
  instrument_token :: "string option"
  lots :: "jsnum option"
  lot_size :: "jsnum option"
  stop_loss :: "jsnum option"
  target :: "jsnum option"
  margin_blocked :: "jsnum option"
  order_status :: "string option"
  meta_lot_size :: "jsnum option"
  meta_tradingSymbol :: "string option"

text \<open>
  What a render reads from outside the component: \<open>sheetData?.ltp\<close>, the active context and
  the logged-in user in local storage, \<open>logMarketStatus()\<close>, and the clock that
  \<open>new Date().toISOString()\<close> reads.
\<close>

record ambient =
  sheet_ltp :: "jsnum option"
  brokerId :: "string option"
  customerId :: "string option"
  userRole :: "string option"
  isOpen :: bool
  now :: string

datatype failure = Thrown string | ServerMessage string | ServerError nat

text \<open>The feedback messages, each with the values its template prints.\<close>

datatype message =
    InvalidSL_BUY jsnum
  | InvalidTarget_BUY jsnum
  | InvalidSL_SELL jsnum
  | InvalidTarget_SELL jsnum
  | InsufficientFunds jsnum jsnum
  | FundCheckFailed
  | InvalidPrice
  | Failed failure
  | ActionSuccessful string
  | OrderUpdated
  | PriceUpdated

datatype feedback = FbError message | FbSuccess message

text \<open>
  The component state. The three text inputs \<open>slPrice\<close>, \<open>targetPrice\<close> and
  \<open>editPriceInput\<close> are \<open>None\<close> when empty and otherwise hold the number the text reads
  as; \<open>addLotInput\<close> is kept as text, since \<open>parseInt\<close> reads its characters. The states
  \<open>action\<close> and \<open>orderStatus\<close>, which no handler reads, are left out.
\<close>

record ui =
  addLotInput :: string
  slPrice :: "jsnum option"
  targetPrice :: "jsnum option"
  submitting :: bool
  feedback :: "feedback option"
  isEditingPrice :: bool
  editPriceInput :: "jsnum option"

text \<open>The funds service's answer; a falsy answer or a rejected call is \<open>None\<close>.\<close>

record limits =
  available_limit :: "jsnum option"
  used_limit :: "jsnum option"

record fundsData =
  intraday :: "limits option"
  overnight :: "limits option"

text \<open>
  The order service's answer: the \<open>fetch\<close> throws, or it answers with \<open>res.ok\<close>,
  \<open>res.status\<close> and a body (\<open>None\<close> when \<open>res.json()\<close> throws).
\<close>

record response_body =
  body_success :: "bool option"
  body_message :: "string option"
  body_order :: "jsval option"

datatype order_reply = Rejected string | Responded bool nat "response_body option"

text \<open>
  What a handler does, in order: calls of the state setters, the two outbound calls, the
  \<open>orders:changed\<close> event and the delayed \<open>onClose\<close>. \<open>FetchUpdateOrder p\<close> is the \<open>POST\<close> of
  the payload \<open>p\<close> to \<open>/api/orders/updateOrder\<close>; the endpoint and the headers are the same on
  every path and are left out, as is the console output.
\<close>

datatype effect =
    SetSubmitting bool
  | SetFeedback "feedback option"
  | SetIsEditingPrice bool
  | GetFundsData
  | FetchUpdateOrder payload
  | DispatchOrdersChanged "jsval option"
  | ScheduleClose

subsection \<open>Values computed at render\<close>

text \<open>\<open>a || b\<close> where \<open>a\<close> may be \<open>null\<close> or \<open>undefined\<close>.\<close>

definition jor_opt :: "jsnum option \<Rightarrow> jsnum \<Rightarrow> jsnum" where
  "jor_opt a b = (case a of None \<Rightarrow> b | Some n \<Rightarrow> jor n b)"

definition lotSize :: "selectedOrder \<Rightarrow> jsnum" where
  "lotSize so = jor (Number_of (lot_size so)) (jor (Number_of (meta_lot_size so)) (Fin 1))"

definition ltpRaw :: "ambient \<Rightarrow> jsnum option" where
  "ltpRaw c = sheet_ltp c"

definition currentPrice :: "ambient \<Rightarrow> selectedOrder \<Rightarrow> jsnum" where
  "currentPrice c so = jor_opt (ltpRaw c) (jor (Number_of (price so)) (Fin 0))"

definition tradingsymbol :: "selectedOrder \<Rightarrow> string" where
  "tradingsymbol so = nullish (meta_tradingSymbol so) (nullish (symbol so) ''N/A'')"

definition orderSide :: "selectedOrder \<Rightarrow> string" where
  "orderSide so = toUpperCase (nullish (side so) [])"

definition productType :: "selectedOrder \<Rightarrow> string" where
  "productType so = (if product so = Some ''MIS'' then ''Intraday'' else ''Overnight'')"

definition avg :: "selectedOrder \<Rightarrow> jsnum" where
  "avg so = nullish (price so) (Fin 0)"

definition qty :: "selectedOrder \<Rightarrow> jsnum" where
  "qty so = nullish (quantity so) (Fin 0)"

definition currentLots :: "selectedOrder \<Rightarrow> jsnum" where
  "currentLots so = nullish (lots so) (Fin 0)"

definition parsedAddLots :: "ui \<Rightarrow> jsnum" where
  "parsedAddLots u =
     (let s = trim (addLotInput u)
      in Math_max (Fin 0) (parseInt (if s = [] then ''0'' else s)))"

definition targetTotalLots :: "selectedOrder \<Rightarrow> ui \<Rightarrow> jsnum" where
  "targetTotalLots so u = jadd (currentLots so) (parsedAddLots u)"

definition targetTotalQuantity :: "selectedOrder \<Rightarrow> ui \<Rightarrow> jsnum" where
  "targetTotalQuantity so u = jmul (targetTotalLots so u) (lotSize so)"

definition computedAvg :: "ambient \<Rightarrow> selectedOrder \<Rightarrow> ui \<Rightarrow> jsnum" where
  "computedAvg c so u =
     (if jgt (parsedAddLots u) (Fin 0) then
        (let existingVal = jmul (qty so) (avg so);
             newVal = jmul (jmul (parsedAddLots u) (lotSize so)) (currentPrice c so)
         in jdiv (jadd existingVal newVal) (targetTotalQuantity so u))
      else avg so)"

subsection \<open>\<open>handleAction\<close>\<close>

text \<open>\<open>Number(text)\<close> of a text input: the empty text reads as \<open>0\<close>.\<close>

definition input_number :: "jsnum option \<Rightarrow> jsnum" where
  "input_number v = (case v of None \<Rightarrow> Fin 0 | Some n \<Rightarrow> n)"

definition sl :: "ui \<Rightarrow> jsnum" where
  "sl u = jor (input_number (slPrice u)) (Fin 0)"

definition tgt :: "ui \<Rightarrow> jsnum" where
  "tgt u = jor (input_number (targetPrice u)) (Fin 0)"

text \<open>
  Step A, the stop-loss and target rules: the error message of the first rule that fails,
  if one does.
\<close>

definition sl_target_error :: "ambient \<Rightarrow> selectedOrder \<Rightarrow> ui \<Rightarrow> message option" where
  "sl_target_error c so u =
     (let cp = currentPrice c so
      in if jgt cp (Fin 0) then
           (if orderSide so = ''BUY'' then
              (if jgt (sl u) (Fin 0) \<and> jge (sl u) cp then Some (InvalidSL_BUY cp)
               else if jgt (tgt u) (Fin 0) \<and> jle (tgt u) cp then Some (InvalidTarget_BUY cp)
               else None)
            else
              (if jgt (sl u) (Fin 0) \<and> jle (sl u) cp then Some (InvalidSL_SELL cp)
               else if jgt (tgt u) (Fin 0) \<and> jge (tgt u) cp then Some (InvalidTarget_SELL cp)
               else None))
         else None)"

text \<open>Step B, the fund check, once \<open>getFundsData\<close> has answered.\<close>

definition limit_or_0 :: "limits option \<Rightarrow> (limits \<Rightarrow> jsnum option) \<Rightarrow> jsnum" where
  "limit_or_0 l f = (case l of None \<Rightarrow> Fin 0 | Some x \<Rightarrow> jor_opt (f x) (Fin 0))"

definition requiredAmount :: "ambient \<Rightarrow> selectedOrder \<Rightarrow> ui \<Rightarrow> jsnum" where
  "requiredAmount c so u = jmul (jmul (parsedAddLots u) (lotSize so)) (currentPrice c so)"

definition availableLimit :: "selectedOrder \<Rightarrow> fundsData \<Rightarrow> jsnum" where
  "availableLimit so fd =
     (if productType so = ''Intraday'' then
        (let max = limit_or_0 (intraday fd) available_limit;
             used = limit_or_0 (intraday fd) used_limit
         in jsub max used)
      else limit_or_0 (overnight fd) available_limit)"

definition fund_error :: "ambient \<Rightarrow> selectedOrder \<Rightarrow> ui \<Rightarrow> fundsData option \<Rightarrow> message option" where
  "fund_error c so u fr =
     (case fr of
        None \<Rightarrow> Some FundCheckFailed
      | Some fd \<Rightarrow>
          if jgt (requiredAmount c so u) (availableLimit so fd)
          then Some (InsufficientFunds (toFixed 2 (requiredAmount c so u))
                                       (toFixed 2 (availableLimit so fd)))
          else None)"

text \<open>The two payloads.\<close>

definition open_payload :: "ambient \<Rightarrow> selectedOrder \<Rightarrow> ui \<Rightarrow> payload" where
  "open_payload c so u =
     [(''broker_id_str'', jstr_opt (brokerId c)),
      (''customer_id_str'', jstr_opt (customerId c)),
      (''order_id'', jstr_opt (order_id so)),
      (''instrument_token'', jstr_opt (instrument_token so)),
      (''symbol'', JStr (tradingsymbol so)),
      (''side'', JStr (orderSide so)),
      (''product'', JStr ''MIS''),
      (''lots'', JStrOfNum (targetTotalLots so u)),
      (''quantity'', JNum (targetTotalQuantity so u)),
      (''price'', JNum (toFixed 2 (computedAvg c so u))),
      (''came_From'', JStr ''Open''),
      (''order_status'', JStr ''OPEN''),
      (''margin_blocked'', JNum (Number_of (margin_blocked so))),
      (''stop_loss'', JNum (case slPrice u of None \<Rightarrow> Fin 0 | Some n \<Rightarrow> n)),
      (''target'', JNum (case targetPrice u of None \<Rightarrow> Fin 0 | Some n \<Rightarrow> n)),
      (''meta'', JObj [(''from'', JStr ''ui_open_order_window_add'')])]"

definition closedLtp :: "ambient \<Rightarrow> selectedOrder \<Rightarrow> jsnum" where
  "closedLtp c so =
     (let liveLtp = nullish (sheet_ltp c) (Fin 0);
          jobbing = nullish (jobbin_price so) (Fin 0)
      in if jgt liveLtp (Fin 0) \<and> \<not> isNaN jobbing then
           (if orderSide so = ''BUY''
            then jsub liveLtp (jmul liveLtp (jdiv jobbing (Fin 100)))
            else jadd liveLtp (jmul liveLtp (jdiv jobbing (Fin 100))))
         else liveLtp)"

definition exit_payload :: "ambient \<Rightarrow> selectedOrder \<Rightarrow> string \<Rightarrow> payload" where
  "exit_payload c so targetStatus =
     [(''broker_id_str'', jstr_opt (brokerId c)),
      (''customer_id_str'', jstr_opt (customerId c)),
      (''order_id'', jstr_opt (order_id so)),
      (''instrument_token'', jstr_opt (instrument_token so)),
      (''closed_ltp'', JNum (toFixed 4 (jor (closedLtp c so) (Fin 0)))),
      (''closed_at'', JStr (now c)),
      (''symbol'', JStr (tradingsymbol so)),
      (''order_status'', JStr targetStatus),
      (''came_From'', JStr (if targetStatus = ''HOLD'' then ''Hold'' else ''Open'')),
      (''meta'', JObj [(''from'', JStr ''ui_open_order_window_exit'')])]"

text \<open>
  What follows the \<open>fetch\<close> of the order service: a thrown \<open>fetch\<close>, a response that is not
  ok, or a body with \<open>success === false\<close> ends in the outer \<open>catch\<close>.
\<close>

definition reply_failure :: "order_reply \<Rightarrow> failure option" where
  "reply_failure r =
     (case r of
        Rejected m \<Rightarrow> Some (Thrown m)
      | Responded ok status body \<Rightarrow>
          if \<not> ok \<or> (case body of None \<Rightarrow> False | Some b \<Rightarrow> body_success b = Some False)
          then Some (case (case body of None \<Rightarrow> None | Some b \<Rightarrow> body_message b) of
                       Some m \<Rightarrow> if m \<noteq> [] then ServerMessage m else ServerError status
                     | None \<Rightarrow> ServerError status)
          else None)"

definition reply_order :: "order_reply \<Rightarrow> jsval option" where
  "reply_order r =
     (case r of
        Rejected m \<Rightarrow> None
      | Responded ok status body \<Rightarrow> (case body of None \<Rightarrow> None | Some b \<Rightarrow> body_order b))"

definition after_fetch :: "ui \<Rightarrow> string \<Rightarrow> order_reply \<Rightarrow> effect list" where
  "after_fetch u clickedAction r =
     (case reply_failure r of
        Some f \<Rightarrow> [SetFeedback (Some (FbError (Failed f)))]
      | None \<Rightarrow>
          (let successMsg =
                 (if clickedAction = ''Adjust'' \<and> parsedAddLots u = Fin 0 then OrderUpdated
                  else ActionSuccessful clickedAction)
           in [SetFeedback (Some (FbSuccess successMsg)),
               DispatchOrdersChanged (reply_order r),
               ScheduleClose]))"

definition submit :: "ambient \<Rightarrow> selectedOrder \<Rightarrow> ui \<Rightarrow> string \<Rightarrow> string \<Rightarrow> order_reply \<Rightarrow> effect list" where
  "submit c so u clickedAction targetStatus r =
     FetchUpdateOrder (if targetStatus = ''OPEN'' then open_payload c so u
                       else exit_payload c so targetStatus)
     # after_fetch u clickedAction r"

text \<open>
  The handler, as the sequence of its effects. \<open>fr\<close> and \<open>r\<close> are what the two awaited calls
  resolve to; each is read only on a path that makes the call. An early \<open>return\<close> inside
  \<open>try\<close> is followed by the \<open>finally\<close> block like every other path.
\<close>

definition handleAction ::
  "ambient \<Rightarrow> selectedOrder \<Rightarrow> ui \<Rightarrow> string \<Rightarrow> string \<Rightarrow> fundsData option \<Rightarrow> order_reply \<Rightarrow> effect list" where
  "handleAction c so u clickedAction targetStatus fr r =
     [SetSubmitting True, SetFeedback None] @
     (if targetStatus = ''OPEN'' \<and> clickedAction = ''Adjust'' then
        (case sl_target_error c so u of
           Some m \<Rightarrow> [SetFeedback (Some (FbError m)), SetSubmitting False]
         | None \<Rightarrow>
             if jgt (parsedAddLots u) (Fin 0) then
               GetFundsData #
               (case fund_error c so u fr of
                  Some m \<Rightarrow> [SetFeedback (Some (FbError m)), SetSubmitting False]
                | None \<Rightarrow> submit c so u clickedAction targetStatus r)
             else submit c so u clickedAction targetStatus r)
      else submit c so u clickedAction targetStatus r) @
     [SetSubmitting False]"

subsection \<open>\<open>handlePriceSave\<close>\<close>

definition price_payload :: "ambient \<Rightarrow> selectedOrder \<Rightarrow> ui \<Rightarrow> payload" where
  "price_payload c so u =
     [(''broker_id_str'', jstr_opt (brokerId c)),
      (''customer_id_str'', jstr_opt (customerId c)),
      (''order_id'', jstr_opt (order_id so)),
      (''price'', JNum (input_number (editPriceInput u))),
      (''meta'', JObj [(''from'', JStr ''ui_open_order_window_edit_price'')])]"

definition handlePriceSave :: "ambient \<Rightarrow> selectedOrder \<Rightarrow> ui \<Rightarrow> order_reply \<Rightarrow> effect list" where
  "handlePriceSave c so u r =
     (if editPriceInput u = None \<or> isNaN (input_number (editPriceInput u))
         \<or> jlt (input_number (editPriceInput u)) (Fin 0)
      then [SetFeedback (Some (FbError InvalidPrice))]
      else
        SetSubmitting True # FetchUpdateOrder (price_payload c so u) #
        (case reply_failure r of
           Some f \<Rightarrow> [SetFeedback (Some (FbError (Failed f)))]
         | None \<Rightarrow> [SetFeedback (Some (FbSuccess PriceUpdated)),
                     SetIsEditingPrice False,
                     DispatchOrdersChanged (reply_order r)]) @
        [SetSubmitting False])"

subsection \<open>The buttons\<close>






text \<open>The state after a sequence of effects: only the setters change it.\<close>

fun apply_effect :: "ui \<Rightarrow> effect \<Rightarrow> ui" where
  "apply_effect u (SetSubmitting b) = u\<lparr>submitting := b\<rparr>"
| "apply_effect u (SetFeedback f) = u\<lparr>feedback := f\<rparr>"
| "apply_effect u (SetIsEditingPrice b) = u\<lparr>isEditingPrice := b\<rparr>"
| "apply_effect u _ = u"

definition apply_effects :: "ui \<Rightarrow> effect list \<Rightarrow> ui" where
  "apply_effects u es = foldl apply_effect u es"

text \<open>The outbound calls among the effects.\<close>

fun outbound :: "effect \<Rightarrow> bool" where
  "outbound GetFundsData = True"
| "outbound (FetchUpdateOrder p) = True"
| "outbound _ = False"

fun is_mutation :: "effect \<Rightarrow> bool" where
  "is_mutation (FetchUpdateOrder p) = True"
| "is_mutation _ = False"

text \<open>Reading a field of a payload.\<close>

definition field :: "payload \<Rightarrow> string \<Rightarrow> jsval option" where
  "field p k = map_of p k"

text \<open>The error messages a handler feeds back, in order.\<close>

fun error_of :: "effect \<Rightarrow> message option" where
  "error_of (SetFeedback (Some (FbError m))) = Some m"
| "error_of _ = None"

definition errors :: "effect list \<Rightarrow> message list" where
  "errors es = List.map_filter error_of es"

text \<open>The error message, if any, that the answer of the order service leads to.\<close>

definition reply_errors :: "order_reply \<Rightarrow> message list" where
  "reply_errors r = (case reply_failure r of None \<Rightarrow> [] | Some f \<Rightarrow> [Failed f])"

text \<open>
  The messages of the validation rules (stop-loss, target, price input) and of insufficient
  funds.
\<close>

fun validation_message :: "message \<Rightarrow> bool" where
  "validation_message (InvalidSL_BUY cp) = True"
| "validation_message (InvalidTarget_BUY cp) = True"
| "validation_message (InvalidSL_SELL cp) = True"
| "validation_message (InvalidTarget_SELL cp) = True"
| "validation_message InvalidPrice = True"
| "validation_message _ = False"

fun funds_message :: "message \<Rightarrow> bool" where
  "funds_message (InsufficientFunds req av) = True"
| "funds_message _ = False"


section \<open>The throttled sampling loops\<close>

text \<open>
  The tick store \<open>ticksRef.current\<close> is a \<open>Map\<close> from the token string to the latest tick,
  held as an association list read with \<open>map_of\<close>. Of a tick the loops read \<open>ltp\<close> only.
\<close>

record tick =
  tick_ltp :: "jsnum option"

type_synonym tickstore = "(string \<times> tick) list"

record leg =
  leg_token :: "string option"
  ltp :: "jsnum option"

record row =
  strike :: rat
  call :: "leg option"
  put :: "leg option"

datatype loop_effect =
    SetLiveTicks "(string \<times> tick) list"
  | SetChainData "row list"
  | RequestAnimationFrame

text \<open>
  Assignment to a key of an object or a \<open>Map\<close>, either held as an association list: a
  present key keeps its place.
\<close>

fun map_set :: "'k \<Rightarrow> 'v \<Rightarrow> ('k \<times> 'v) list \<Rightarrow> ('k \<times> 'v) list" where
  "map_set k v [] = [(k, v)]"
| "map_set k v (kv # kvs) = (if fst kv = k then (k, v) # kvs else kv # map_set k v kvs)"

subsection \<open>The order list (\<open>OpenOrder\<close>)\<close>

text \<open>
  One call of \<open>updateLoop\<close>. \<open>instrumentDataRef.current\<close> is given by the token strings
  \<open>String(inst.instrument_token)\<close> of its instruments; \<open>lastUpdate\<close> is the closure variable,
  returned with its new value.
\<close>

definition updateLoop_OpenOrder ::
  "tickstore option \<Rightarrow> string list option \<Rightarrow> rat \<Rightarrow> rat \<Rightarrow> loop_effect list \<times> rat" where
  "updateLoop_OpenOrder ticksRef instrumentDataRef timestamp lastUpdate =
     (if timestamp - lastUpdate < 200 then ([RequestAnimationFrame], lastUpdate)
      else
        (case ticksRef of
           None \<Rightarrow> ([RequestAnimationFrame], lastUpdate)
         | Some ticksMap \<Rightarrow>
             (case instrumentDataRef of
                None \<Rightarrow> ([RequestAnimationFrame], lastUpdate)
              | Some currentData \<Rightarrow>
                  if currentData = [] then ([RequestAnimationFrame], lastUpdate)
                  else
                    (let newTicks =
                           foldl (\<lambda>m tickKey.
                                    case map_of ticksMap tickKey of
                                      None \<Rightarrow> m
                                    | Some t \<Rightarrow> map_set tickKey t m)
                                 [] currentData;
                         hasUpdates = list_ex (\<lambda>tickKey. map_of ticksMap tickKey \<noteq> None) currentData
                     in if hasUpdates
                        then ([SetLiveTicks newTicks, RequestAnimationFrame], timestamp)
                        else ([RequestAnimationFrame], lastUpdate)))))"

subsection \<open>The option chain (\<open>useOptionChain\<close>)\<close>

datatype opt_type = CallType | PutType

record position =
  pos_index :: nat
  pos_type :: opt_type

record entry =
  callLtp :: "jsnum option"
  putLtp :: "jsnum option"

definition currentLtp :: "row \<Rightarrow> opt_type \<Rightarrow> jsnum option" where
  "currentLtp r t =
     (case t of
        CallType \<Rightarrow> (case call r of None \<Rightarrow> None | Some lg \<Rightarrow> ltp lg)
      | PutType \<Rightarrow> (case put r of None \<Rightarrow> None | Some lg \<Rightarrow> ltp lg))"

text \<open>The body of \<open>tokenMapRef.current.forEach\<close> for one token.\<close>

definition scan_token ::
  "tickstore \<Rightarrow> row list \<Rightarrow> (nat \<times> entry) list \<Rightarrow> string \<times> position \<Rightarrow> (nat \<times> entry) list" where
  "scan_token ticks currentChain pendingUpdates tp =
     (case map_of ticks (fst tp) of
        None \<Rightarrow> pendingUpdates
      | Some t \<Rightarrow>
          (case tick_ltp t of
             None \<Rightarrow> pendingUpdates
           | Some l \<Rightarrow>
               if jgt l (Fin 0) \<and> pos_index (snd tp) < length currentChain
                  \<and> currentLtp (currentChain ! pos_index (snd tp)) (pos_type (snd tp)) \<noteq> Some l
               then
                 (let e = (case map_of pendingUpdates (pos_index (snd tp)) of
                             None \<Rightarrow> \<lparr>callLtp = None, putLtp = None\<rparr>
                           | Some e0 \<Rightarrow> e0);
                      e' = (case pos_type (snd tp) of
                              CallType \<Rightarrow> e\<lparr>callLtp := Some l\<rparr>
                            | PutType \<Rightarrow> e\<lparr>putLtp := Some l\<rparr>)
                  in map_set (pos_index (snd tp)) e' pendingUpdates)
               else pendingUpdates))"

text \<open>The body of the loop over \<open>pendingUpdates.entries()\<close> for one entry.\<close>

definition apply_entry :: "row list \<Rightarrow> nat \<times> entry \<Rightarrow> row list" where
  "apply_entry updatedChain ie =
     (let r = updatedChain ! fst ie;
          r1 = (case callLtp (snd ie) of
                  None \<Rightarrow> r
                | Some l \<Rightarrow> (case call r of None \<Rightarrow> r | Some lg \<Rightarrow> r\<lparr>call := Some (lg\<lparr>ltp := Some l\<rparr>)\<rparr>));
          r2 = (case putLtp (snd ie) of
                  None \<Rightarrow> r1
                | Some l \<Rightarrow> (case put r1 of None \<Rightarrow> r1 | Some lg \<Rightarrow> r1\<lparr>put := Some (lg\<lparr>ltp := Some l\<rparr>)\<rparr>))
      in updatedChain[fst ie := r2])"

text \<open>
  One call of \<open>updateLoop\<close>: the effects, and the new values of \<open>chainDataRef.current\<close> and
  \<open>lastUpdate\<close>.
\<close>

definition updateLoop_useOptionChain ::
  "row list option \<Rightarrow> tickstore \<Rightarrow> (string \<times> position) list \<Rightarrow> rat \<Rightarrow> rat
     \<Rightarrow> loop_effect list \<times> row list option \<times> rat" where
  "updateLoop_useOptionChain chainDataRef ticks tokenMap timestamp lastUpdate =
     (if timestamp - lastUpdate < 50 then ([RequestAnimationFrame], chainDataRef, lastUpdate)
      else
        (case chainDataRef of
           None \<Rightarrow> ([RequestAnimationFrame], chainDataRef, lastUpdate)
         | Some currentChain \<Rightarrow>
             if currentChain = [] \<or> ticks = [] then ([RequestAnimationFrame], chainDataRef, lastUpdate)
             else if tokenMap = [] then ([RequestAnimationFrame], chainDataRef, lastUpdate)
             else
               (let pendingUpdates = foldl (scan_token ticks currentChain) [] tokenMap
                in if pendingUpdates \<noteq> [] then
                     (let updatedChain = foldl apply_entry currentChain pendingUpdates
                      in ([SetChainData updatedChain, RequestAnimationFrame],
                          Some updatedChain, timestamp))
                   else ([RequestAnimationFrame], chainDataRef, lastUpdate))))"

text \<open>
  Whether the tick stored for a token of \<open>tokenMapRef.current\<close> carries a positive \<open>ltp\<close>
  other than the one the chain shows at the token's position.
\<close>

definition tick_differs :: "tickstore \<Rightarrow> row list \<Rightarrow> string \<times> position \<Rightarrow> bool" where
  "tick_differs ticks currentChain tp =
     (case map_of ticks (fst tp) of
        None \<Rightarrow> False
      | Some t \<Rightarrow>
          (case tick_ltp t of
             None \<Rightarrow> False
           | Some l \<Rightarrow>
               jgt l (Fin 0) \<and> pos_index (snd tp) < length currentChain
               \<and> currentLtp (currentChain ! pos_index (snd tp)) (pos_type (snd tp)) \<noteq> Some l))"

fun publishes :: "loop_effect \<Rightarrow> bool" where
  "publishes RequestAnimationFrame = False"
| "publishes _ = True"

section \<open>Sample values\<close>

definition sample_order :: selectedOrder where
  "sample_order =
     \<lparr>order_id = Some ''o1'', symbol = Some ''NIFTY24DECFUT'', side = Some ''BUY'',
      product = Some ''MIS'', quantity = Some (Fin 75), price = Some (Fin 100),
      jobbin_price = Some (Fin (1 / 2)), instrument_token = Some ''256265'',
      lots = Some (Fin 3), lot_size = Some (Fin 25), stop_loss = None, target = None,
      margin_blocked = Some (Fin 7500), order_status = Some ''OPEN'',
      meta_lot_size = None, meta_tradingSymbol = None\<rparr>"

definition sample_ambient :: ambient where
  "sample_ambient =
     \<lparr>sheet_ltp = Some (Fin 100), brokerId = Some ''b1'', customerId = Some ''c1'',
      userRole = Some ''broker'', isOpen = True, now = ''2025-01-01T09:30:00.000Z''\<rparr>"

definition sample_ui :: ui where
  "sample_ui =
     \<lparr>addLotInput = [], slPrice = None, targetPrice = None, submitting = False,
      feedback = None, isEditingPrice = False, editPriceInput = None\<rparr>"

definition sample_funds :: fundsData where
  "sample_funds =
     \<lparr>intraday = Some \<lparr>available_limit = Some (Fin 100000), used_limit = Some (Fin 40000)\<rparr>,
      overnight = Some \<lparr>available_limit = Some (Fin 50000), used_limit = None\<rparr>\<rparr>"

definition sample_reply :: order_reply where
  "sample_reply =
     Responded True 200
       (Some \<lparr>body_success = Some True, body_message = None, body_order = None\<rparr>)"

definition sample_ticks :: tickstore where
  "sample_ticks = [(''256265'', \<lparr>tick_ltp = Some (Fin 100)\<rparr>)]"

definition sample_chain :: "row list" where
  "sample_chain =
     [\<lparr>strike = 24000,
       call = Some \<lparr>leg_token = Some ''256265'', ltp = Some (Fin 95)\<rparr>,
       put = Some \<lparr>leg_token = Some ''256266'', ltp = Some (Fin 80)\<rparr>\<rparr>]"

definition sample_tokenMap :: "(string \<times> position) list" where
  "sample_tokenMap =
     [(''256265'', \<lparr>pos_index = 0, pos_type = CallType\<rparr>),
      (''256266'', \<lparr>pos_index = 0, pos_type = PutType\<rparr>)]"

section \<open>Properties of the order window\<close>

subsection \<open>Numbers and traces\<close>

lemma jor_not_NaN: "b \<noteq> NaN \<Longrightarrow> jor a b \<noteq> NaN"
  by (simp add: jor_def truthy_def)


lemma not_jlt_iff: "a \<noteq> NaN \<Longrightarrow> b \<noteq> NaN \<Longrightarrow> (\<not> jlt a b) = jle b a"
  by (cases a; cases b) auto



lemma currentPrice_not_NaN: "currentPrice c so \<noteq> NaN"
  by (simp add: currentPrice_def jor_opt_def jor_not_NaN split: option.split)

lemma sl_not_NaN: "sl u \<noteq> NaN"
  by (simp add: sl_def jor_not_NaN)

lemma tgt_not_NaN: "tgt u \<noteq> NaN"
  by (simp add: tgt_def jor_not_NaN)

lemma errors_Nil [simp]: "errors [] = []"
  by (simp add: errors_def map_filter_simps)

lemma errors_Cons [simp]:
  "errors (e # es) = (case error_of e of None \<Rightarrow> errors es | Some m \<Rightarrow> m # errors es)"
  by (simp add: errors_def map_filter_simps split: option.split)

lemma errors_append [simp]: "errors (xs @ ys) = errors xs @ errors ys"
  by (induction xs) (auto split: option.split)

lemma reply_errors_cases: "reply_errors r = [] \<or> (\<exists>f. reply_errors r = [Failed f])"
  by (simp add: reply_errors_def split: option.split)

lemma reply_errors_not_local:
  "\<not> list_ex (\<lambda>m. validation_message m \<or> funds_message m) (reply_errors r)"
  using reply_errors_cases [of r] by auto

lemma errors_submit: "errors (submit c so u a t r) = reply_errors r"
  by (simp add: submit_def after_fetch_def reply_errors_def split: option.split)

lemma list_ex_errors_submit:
  "list_ex P (errors (submit c so u a t r)) = (\<exists>f. reply_failure r = Some f \<and> P (Failed f))"
  by (auto simp: errors_submit reply_errors_def split: option.splits)

lemma is_mutation_submit: "list_ex is_mutation (submit c so u a t r)"
  by (simp add: submit_def)



lemma mutation_after_fetch: "FetchUpdateOrder p \<notin> set (after_fetch u a r)"
  by (simp add: after_fetch_def split: option.split)

lemma mutation_submit:
  "FetchUpdateOrder p \<in> set (submit c so u a t r) \<Longrightarrow>
     p = (if t = ''OPEN'' then open_payload c so u else exit_payload c so t)"
  by (simp add: submit_def mutation_after_fetch)

lemma mutation_handleAction:
  "FetchUpdateOrder p \<in> set (handleAction c so u a t fr r) \<Longrightarrow>
     p = (if t = ''OPEN'' then open_payload c so u else exit_payload c so t)"
  by (auto simp: handleAction_def dest: mutation_submit split: option.splits if_splits)


lemma errors_handleAction_open:
  "errors (handleAction c so u ''Adjust'' ''OPEN'' fr r) =
     (case sl_target_error c so u of
        Some m \<Rightarrow> [m]
      | None \<Rightarrow>
          if jgt (parsedAddLots u) (Fin 0)
          then (case fund_error c so u fr of Some m \<Rightarrow> [m] | None \<Rightarrow> reply_errors r)
          else reply_errors r)"
  by (simp add: handleAction_def errors_submit split: option.split)

lemma errors_handleAction_other:
  "\<not> (t = ''OPEN'' \<and> a = ''Adjust'') \<Longrightarrow> errors (handleAction c so u a t fr r) = reply_errors r"
  by (auto simp: handleAction_def errors_submit)

lemma fund_error_cases:
  "fund_error c so u fr = Some m \<Longrightarrow> m = FundCheckFailed \<or> (\<exists>a b. m = InsufficientFunds a b)"
  by (auto simp: fund_error_def split: option.splits if_splits)


subsection \<open>Stop-loss and target rules\<close>

lemma errors_open_validation:
  assumes "validation_message m"
  shows "(errors (handleAction c so u ''Adjust'' ''OPEN'' fr r) = [m]) = (sl_target_error c so u = Some m)"
proof (cases "sl_target_error c so u")
  case None
  have "reply_errors r \<noteq> [m]"
    using reply_errors_cases [of r] assms by auto
  moreover have "fund_error c so u fr \<noteq> Some m"
    using fund_error_cases [of c so u fr m] assms by auto
  ultimately show ?thesis
    using None by (auto simp: errors_handleAction_open split: option.split)
next
  case (Some m')
  then show ?thesis by (simp add: errors_handleAction_open)
qed

lemma errors_open_no_validation:
  assumes "sl_target_error c so u = None"
  shows "\<not> list_ex validation_message (errors (handleAction c so u ''Adjust'' ''OPEN'' fr r))"
proof -
  have "\<not> list_ex validation_message (reply_errors r)"
    using reply_errors_cases [of r] by auto
  moreover have "fund_error c so u fr = Some m \<Longrightarrow> \<not> validation_message m" for m
    using fund_error_cases [of c so u fr m] by auto
  ultimately show ?thesis
    using assms by (auto simp: errors_handleAction_open split: option.split)
qed

lemma sl_target_error_buy:
  assumes "jgt (currentPrice c so) (Fin 0)" "orderSide so = ''BUY''"
  shows "(sl_target_error c so u = Some (InvalidSL_BUY (currentPrice c so))) =
           (jgt (sl u) (Fin 0) \<and> \<not> jlt (sl u) (currentPrice c so))"
    and "(sl_target_error c so u = Some (InvalidTarget_BUY (currentPrice c so))) =
           (\<not> (jgt (sl u) (Fin 0) \<and> \<not> jlt (sl u) (currentPrice c so))
            \<and> jgt (tgt u) (Fin 0) \<and> \<not> jgt (tgt u) (currentPrice c so))"
  using assms
  by (auto simp: sl_target_error_def Let_def jge_def jgt_def
        not_jlt_iff [OF sl_not_NaN currentPrice_not_NaN]
        not_jlt_iff [OF currentPrice_not_NaN tgt_not_NaN])

lemma sl_target_error_sell:
  assumes "jgt (currentPrice c so) (Fin 0)" "orderSide so \<noteq> ''BUY''"
  shows "(sl_target_error c so u = Some (InvalidSL_SELL (currentPrice c so))) =
           (jgt (sl u) (Fin 0) \<and> \<not> jgt (sl u) (currentPrice c so))"
    and "(sl_target_error c so u = Some (InvalidTarget_SELL (currentPrice c so))) =
           (\<not> (jgt (sl u) (Fin 0) \<and> \<not> jgt (sl u) (currentPrice c so))
            \<and> jgt (tgt u) (Fin 0) \<and> \<not> jlt (tgt u) (currentPrice c so))"
  using assms
  by (auto simp: sl_target_error_def Let_def jge_def jgt_def
        not_jlt_iff [OF tgt_not_NaN currentPrice_not_NaN]
        not_jlt_iff [OF currentPrice_not_NaN sl_not_NaN])

lemma sl_target_error_skipped:
  "\<not> jgt (currentPrice c so) (Fin 0) \<Longrightarrow> sl_target_error c so u = None"
  by (simp add: sl_target_error_def)

lemma sl_target_error_unset:
  "slPrice u = None \<Longrightarrow> targetPrice u = None \<Longrightarrow> sl_target_error c so u = None"
  by (simp add: sl_target_error_def Let_def sl_def tgt_def input_number_def jor_def truthy_def
        jgt_def)

lemma sample_currentPrice: "currentPrice sample_ambient sample_order = Fin 100"
  by (simp add: currentPrice_def ltpRaw_def jor_opt_def jor_def truthy_def sample_ambient_def)

lemma sample_orderSide: "orderSide sample_order = ''BUY''"
  by code_simp


text \<open>
  Claim C1, as the code has it. In the Adjust\<open>\<rightarrow>\<close>OPEN flow with \<open>currentPrice > 0\<close>: for a BUY
  order the attempt is rejected with the stop-loss message exactly when the stop-loss is
  positive and not strictly below \<open>currentPrice\<close>, and, the stop-loss rule having passed, with
  the target message exactly when the target is positive and not strictly above
  \<open>currentPrice\<close>; for any other side both inequalities invert. With \<open>currentPrice \<le> 0\<close> no
  stop-loss or target message is produced at all.
\<close>

theorem adjust_open_stop_loss_target_rules:
  "(jgt (currentPrice c so) (Fin 0) \<and> orderSide so = ''BUY'' \<longrightarrow>
      ((errors (handleAction c so u ''Adjust'' ''OPEN'' fr r) = [InvalidSL_BUY (currentPrice c so)])
         = (jgt (sl u) (Fin 0) \<and> \<not> jlt (sl u) (currentPrice c so)))
    \<and> ((errors (handleAction c so u ''Adjust'' ''OPEN'' fr r) = [InvalidTarget_BUY (currentPrice c so)])
         = (\<not> (jgt (sl u) (Fin 0) \<and> \<not> jlt (sl u) (currentPrice c so))
            \<and> jgt (tgt u) (Fin 0) \<and> \<not> jgt (tgt u) (currentPrice c so))))
   \<and> (jgt (currentPrice c so) (Fin 0) \<and> orderSide so \<noteq> ''BUY'' \<longrightarrow>
      ((errors (handleAction c so u ''Adjust'' ''OPEN'' fr r) = [InvalidSL_SELL (currentPrice c so)])
         = (jgt (sl u) (Fin 0) \<and> \<not> jgt (sl u) (currentPrice c so)))
    \<and> ((errors (handleAction c so u ''Adjust'' ''OPEN'' fr r) = [InvalidTarget_SELL (currentPrice c so)])
         = (\<not> (jgt (sl u) (Fin 0) \<and> \<not> jgt (sl u) (currentPrice c so))
            \<and> jgt (tgt u) (Fin 0) \<and> \<not> jlt (tgt u) (currentPrice c so))))
   \<and> (\<not> jgt (currentPrice c so) (Fin 0) \<longrightarrow>
        \<not> list_ex validation_message (errors (handleAction c so u ''Adjust'' ''OPEN'' fr r)))"
proof (intro conjI impI)
  assume h: "jgt (currentPrice c so) (Fin 0) \<and> orderSide so = ''BUY''"
  show "(errors (handleAction c so u ''Adjust'' ''OPEN'' fr r) = [InvalidSL_BUY (currentPrice c so)])
         = (jgt (sl u) (Fin 0) \<and> \<not> jlt (sl u) (currentPrice c so))"
    using h by (simp add: errors_open_validation sl_target_error_buy(1))
  show "(errors (handleAction c so u ''Adjust'' ''OPEN'' fr r) = [InvalidTarget_BUY (currentPrice c so)])
         = (\<not> (jgt (sl u) (Fin 0) \<and> \<not> jlt (sl u) (currentPrice c so))
            \<and> jgt (tgt u) (Fin 0) \<and> \<not> jgt (tgt u) (currentPrice c so))"
    using h by (simp add: errors_open_validation sl_target_error_buy(2))
next
  assume h: "jgt (currentPrice c so) (Fin 0) \<and> orderSide so \<noteq> ''BUY''"
  show "(errors (handleAction c so u ''Adjust'' ''OPEN'' fr r) = [InvalidSL_SELL (currentPrice c so)])
         = (jgt (sl u) (Fin 0) \<and> \<not> jgt (sl u) (currentPrice c so))"
    using h by (simp add: errors_open_validation sl_target_error_sell(1))
  show "(errors (handleAction c so u ''Adjust'' ''OPEN'' fr r) = [InvalidTarget_SELL (currentPrice c so)])
         = (\<not> (jgt (sl u) (Fin 0) \<and> \<not> jgt (sl u) (currentPrice c so))
            \<and> jgt (tgt u) (Fin 0) \<and> \<not> jlt (tgt u) (currentPrice c so))"
    using h by (simp add: errors_open_validation sl_target_error_sell(2))
next
  assume "\<not> jgt (currentPrice c so) (Fin 0)"
  then show "\<not> list_ex validation_message (errors (handleAction c so u ''Adjust'' ''OPEN'' fr r))"
    by (simp add: errors_open_no_validation sl_target_error_skipped)
qed


text \<open>
  At \<open>currentPrice = 100\<close>, BUY: a stop-loss of 100 is rejected and 99 is not; a target of 100
  is rejected and 101 is not.
\<close>

theorem adjust_open_stop_loss_target_rules_witness:
  "jgt (currentPrice sample_ambient sample_order) (Fin 0)
   \<and> orderSide sample_order = ''BUY''
   \<and> errors (handleAction sample_ambient sample_order (sample_ui\<lparr>slPrice := Some (Fin 100)\<rparr>)
               ''Adjust'' ''OPEN'' None sample_reply) = [InvalidSL_BUY (Fin 100)]
   \<and> errors (handleAction sample_ambient sample_order (sample_ui\<lparr>slPrice := Some (Fin 99)\<rparr>)
               ''Adjust'' ''OPEN'' None sample_reply) \<noteq> [InvalidSL_BUY (Fin 100)]
   \<and> errors (handleAction sample_ambient sample_order (sample_ui\<lparr>targetPrice := Some (Fin 100)\<rparr>)
               ''Adjust'' ''OPEN'' None sample_reply) = [InvalidTarget_BUY (Fin 100)]
   \<and> errors (handleAction sample_ambient sample_order (sample_ui\<lparr>targetPrice := Some (Fin 101)\<rparr>)
               ''Adjust'' ''OPEN'' None sample_reply) \<noteq> [InvalidTarget_BUY (Fin 100)]"
  using adjust_open_stop_loss_target_rules
          [of sample_ambient sample_order "sample_ui\<lparr>slPrice := Some (Fin 100)\<rparr>" None sample_reply]
        adjust_open_stop_loss_target_rules
          [of sample_ambient sample_order "sample_ui\<lparr>slPrice := Some (Fin 99)\<rparr>" None sample_reply]
        adjust_open_stop_loss_target_rules
          [of sample_ambient sample_order "sample_ui\<lparr>targetPrice := Some (Fin 100)\<rparr>" None sample_reply]
        adjust_open_stop_loss_target_rules
          [of sample_ambient sample_order "sample_ui\<lparr>targetPrice := Some (Fin 101)\<rparr>" None sample_reply]
  by (simp add: sample_currentPrice sample_orderSide sl_def tgt_def input_number_def jor_def
        truthy_def jgt_def sample_ui_def)


text \<open>
  Claim C1 as stated speaks of nonzero values. The rules look at positive values only:
  a BUY order at \<open>currentPrice = 100\<close> with the target \<open>-5\<close>, which is nonzero and not above
  100, passes and is submitted.
\<close>

theorem negative_target_counterexample:
  "orderSide sample_order = ''BUY''
   \<and> currentPrice sample_ambient sample_order = Fin 100
   \<and> tgt (sample_ui\<lparr>targetPrice := Some (Fin (- 5))\<rparr>) = Fin (- 5)
   \<and> Fin (- 5) \<noteq> Fin 0
   \<and> \<not> jgt (Fin (- 5)) (Fin 100)
   \<and> errors (handleAction sample_ambient sample_order (sample_ui\<lparr>targetPrice := Some (Fin (- 5))\<rparr>)
               ''Adjust'' ''OPEN'' None sample_reply) = []
   \<and> list_ex is_mutation
       (handleAction sample_ambient sample_order (sample_ui\<lparr>targetPrice := Some (Fin (- 5))\<rparr>)
          ''Adjust'' ''OPEN'' None sample_reply)"
  by code_simp


subsection \<open>Fund check\<close>

lemma handleAction_funds_path:
  assumes "sl_target_error c so u = None" "jgt (parsedAddLots u) (Fin 0)"
  shows "handleAction c so u ''Adjust'' ''OPEN'' fr r =
           [SetSubmitting True, SetFeedback None, GetFundsData] @
           (case fund_error c so u fr of
              Some m \<Rightarrow> [SetFeedback (Some (FbError m)), SetSubmitting False]
            | None \<Rightarrow> submit c so u ''Adjust'' ''OPEN'' r) @
           [SetSubmitting False]"
  using assms by (simp add: handleAction_def)

lemma fund_check_core:
  assumes "sl_target_error c so u = None" and "jgt (parsedAddLots u) (Fin 0)"
  shows
    "(list_ex funds_message (errors (handleAction c so u ''Adjust'' ''OPEN'' (Some fd) r))
        = jgt (requiredAmount c so u) (availableLimit so fd))
     \<and> (list_ex funds_message (errors (handleAction c so u ''Adjust'' ''OPEN'' (Some fd) r)) \<longrightarrow>
          errors (handleAction c so u ''Adjust'' ''OPEN'' (Some fd) r)
            = [InsufficientFunds (toFixed 2 (requiredAmount c so u))
                                 (toFixed 2 (availableLimit so fd))]
          \<and> \<not> list_ex is_mutation (handleAction c so u ''Adjust'' ''OPEN'' (Some fd) r))
     \<and> (\<not> list_ex funds_message (errors (handleAction c so u ''Adjust'' ''OPEN'' (Some fd) r)) \<longrightarrow>
          list_ex is_mutation (handleAction c so u ''Adjust'' ''OPEN'' (Some fd) r))"
proof (cases "jgt (requiredAmount c so u) (availableLimit so fd)")
  case True
  then have "fund_error c so u (Some fd)
               = Some (InsufficientFunds (toFixed 2 (requiredAmount c so u))
                                         (toFixed 2 (availableLimit so fd)))"
    by (simp add: fund_error_def)
  then have "handleAction c so u ''Adjust'' ''OPEN'' (Some fd) r =
               [SetSubmitting True, SetFeedback None, GetFundsData,
                SetFeedback (Some (FbError (InsufficientFunds (toFixed 2 (requiredAmount c so u))
                                                              (toFixed 2 (availableLimit so fd))))),
                SetSubmitting False, SetSubmitting False]"
    by (simp add: handleAction_funds_path [OF assms])
  with True show ?thesis by simp
next
  case False
  then have "fund_error c so u (Some fd) = None"
    by (simp add: fund_error_def)
  then have "handleAction c so u ''Adjust'' ''OPEN'' (Some fd) r =
               [SetSubmitting True, SetFeedback None, GetFundsData] @
               submit c so u ''Adjust'' ''OPEN'' r @ [SetSubmitting False]"
    by (simp add: handleAction_funds_path [OF assms])
  with False show ?thesis
    by (simp add: list_ex_errors_submit is_mutation_submit)
qed


lemma availableLimit_eq:
  "(if product so = Some ''MIS''
    then jsub (limit_or_0 (intraday fd) available_limit) (limit_or_0 (intraday fd) used_limit)
    else limit_or_0 (overnight fd) available_limit) = availableLimit so fd"
  by (simp add: availableLimit_def productType_def)






subsection \<open>Weighted average price\<close>










subsection \<open>One mutation at a time\<close>





lemma apply_effects_append:
  "apply_effects u (xs @ ys) = apply_effects (apply_effects u xs) ys"
  by (simp add: apply_effects_def)

lemma handleAction_clears_flag:
  "\<not> submitting (apply_effects u (handleAction c so u' a t fr r))"
  by (simp add: handleAction_def apply_effects_append del: append.simps foldl_append)
     (simp add: apply_effects_def)







subsection \<open>Hold\<close>



subsection \<open>Errors raised before submission\<close>

lemma handleAction_local_rejection:
  assumes "list_ex (\<lambda>m. validation_message m \<or> funds_message m) (errors (handleAction c so u a t fr r))"
  shows "\<not> list_ex is_mutation (handleAction c so u a t fr r)"
    and "list_ex validation_message (errors (handleAction c so u a t fr r))
           \<Longrightarrow> \<not> list_ex outbound (handleAction c so u a t fr r)"
proof -
  have local: "\<not> list_ex is_mutation (handleAction c so u a t fr r)
               \<and> (list_ex validation_message (errors (handleAction c so u a t fr r))
                    \<longrightarrow> \<not> list_ex outbound (handleAction c so u a t fr r))"
  proof (cases "t = ''OPEN'' \<and> a = ''Adjust''")
    case False
    then show ?thesis
      using assms reply_errors_not_local [of r] by (simp add: errors_handleAction_other)
  next
    case True
    show ?thesis
    proof (cases "sl_target_error c so u")
      case (Some m)
      then show ?thesis using True by (simp add: handleAction_def)
    next
      case None
      show ?thesis
      proof (cases "jgt (parsedAddLots u) (Fin 0)")
        case False
        then have "errors (handleAction c so u a t fr r) = reply_errors r"
          using True None by (simp add: errors_handleAction_open)
        then show ?thesis
          using assms reply_errors_not_local [of r] by simp
      next
        case lots: True
        show ?thesis
        proof (cases "fund_error c so u fr")
          case (Some m)
          then have "\<not> validation_message m"
            using fund_error_cases [of c so u fr m] by auto
          then show ?thesis using True None lots Some by (simp add: handleAction_def)
        next
          case fnone: None
          then have "errors (handleAction c so u a t fr r) = reply_errors r"
            using True None lots by (simp add: errors_handleAction_open)
          then show ?thesis
            using assms reply_errors_not_local [of r] by simp
        qed
      qed
    qed
  qed
  from local show "\<not> list_ex is_mutation (handleAction c so u a t fr r)"
    by blast
  from local show "list_ex validation_message (errors (handleAction c so u a t fr r))
           \<Longrightarrow> \<not> list_ex outbound (handleAction c so u a t fr r)"
    by blast
qed

lemma handlePriceSave_local_rejection:
  assumes "list_ex (\<lambda>m. validation_message m \<or> funds_message m) (errors (handlePriceSave c so u r))"
  shows "\<not> list_ex outbound (handlePriceSave c so u r)"
    and "\<not> list_ex is_mutation (handlePriceSave c so u r)"
  using assms reply_errors_cases [of r]
  by (auto simp: handlePriceSave_def reply_errors_def split: if_splits option.splits)

lemma validation_message_local:
  "list_ex validation_message ms \<Longrightarrow> list_ex (\<lambda>m. validation_message m \<or> funds_message m) ms"
  by (auto simp: list_ex_iff)

text \<open>
  Claim C7. Whenever \<open>handleAction\<close> or \<open>handlePriceSave\<close> feeds back a validation message
  (stop-loss, target, price input) or the insufficient-funds message, it has sent no order
  mutation. A validation message comes before any outbound call at all; the insufficient-funds
  message comes after the funds query and before the mutation.
\<close>

theorem local_errors_never_submitted:
  "(list_ex (\<lambda>m. validation_message m \<or> funds_message m) (errors (handleAction c so u a t fr r))
      \<longrightarrow> \<not> list_ex is_mutation (handleAction c so u a t fr r))
   \<and> (list_ex (\<lambda>m. validation_message m \<or> funds_message m) (errors (handlePriceSave c so u r))
      \<longrightarrow> \<not> list_ex is_mutation (handlePriceSave c so u r))
   \<and> (list_ex validation_message (errors (handleAction c so u a t fr r))
      \<longrightarrow> \<not> list_ex outbound (handleAction c so u a t fr r))
   \<and> (list_ex validation_message (errors (handlePriceSave c so u r))
      \<longrightarrow> \<not> list_ex outbound (handlePriceSave c so u r))"
proof (intro conjI impI)
  assume "list_ex (\<lambda>m. validation_message m \<or> funds_message m) (errors (handleAction c so u a t fr r))"
  then show "\<not> list_ex is_mutation (handleAction c so u a t fr r)"
    by (rule handleAction_local_rejection(1))
next
  assume "list_ex (\<lambda>m. validation_message m \<or> funds_message m) (errors (handlePriceSave c so u r))"
  then show "\<not> list_ex is_mutation (handlePriceSave c so u r)"
    by (rule handlePriceSave_local_rejection(2))
next
  assume v: "list_ex validation_message (errors (handleAction c so u a t fr r))"
  then show "\<not> list_ex outbound (handleAction c so u a t fr r)"
    using handleAction_local_rejection(2) [OF validation_message_local [OF v] v] by blast
next
  assume "list_ex validation_message (errors (handlePriceSave c so u r))"
  then show "\<not> list_ex outbound (handlePriceSave c so u r)"
    using handlePriceSave_local_rejection(1) validation_message_local by blast
qed

text \<open>
  A stop-loss at the current price, one lot of 25 at 2500 against 60000 available, and a
  negative price input: each is reported and nothing is sent.
\<close>

theorem local_errors_never_submitted_witness:
  "list_ex (\<lambda>m. validation_message m \<or> funds_message m)
     (errors (handleAction sample_ambient sample_order (sample_ui\<lparr>slPrice := Some (Fin 100)\<rparr>)
                ''Adjust'' ''OPEN'' None sample_reply))
   \<and> \<not> list_ex is_mutation
         (handleAction sample_ambient sample_order (sample_ui\<lparr>slPrice := Some (Fin 100)\<rparr>)
            ''Adjust'' ''OPEN'' None sample_reply)
   \<and> list_ex (\<lambda>m. validation_message m \<or> funds_message m)
       (errors (handleAction (sample_ambient\<lparr>sheet_ltp := Some (Fin 2500)\<rparr>) sample_order
                  (sample_ui\<lparr>addLotInput := ''1''\<rparr>) ''Adjust'' ''OPEN'' (Some sample_funds) sample_reply))
   \<and> \<not> list_ex is_mutation
         (handleAction (sample_ambient\<lparr>sheet_ltp := Some (Fin 2500)\<rparr>) sample_order
            (sample_ui\<lparr>addLotInput := ''1''\<rparr>) ''Adjust'' ''OPEN'' (Some sample_funds) sample_reply)
   \<and> list_ex (\<lambda>m. validation_message m \<or> funds_message m)
       (errors (handlePriceSave sample_ambient sample_order
                  (sample_ui\<lparr>editPriceInput := Some (Fin (- 1))\<rparr>) sample_reply))
   \<and> \<not> list_ex is_mutation
         (handlePriceSave sample_ambient sample_order
            (sample_ui\<lparr>editPriceInput := Some (Fin (- 1))\<rparr>) sample_reply)"
proof -
  have v: "list_ex (\<lambda>m. validation_message m \<or> funds_message m)
             (errors (handleAction sample_ambient sample_order (sample_ui\<lparr>slPrice := Some (Fin 100)\<rparr>)
                        ''Adjust'' ''OPEN'' None sample_reply))"
    by code_simp
  have f: "list_ex (\<lambda>m. validation_message m \<or> funds_message m)
             (errors (handleAction (sample_ambient\<lparr>sheet_ltp := Some (Fin 2500)\<rparr>) sample_order
                        (sample_ui\<lparr>addLotInput := ''1''\<rparr>) ''Adjust'' ''OPEN'' (Some sample_funds)
                        sample_reply))"
    by code_simp
  have e: "list_ex (\<lambda>m. validation_message m \<or> funds_message m)
             (errors (handlePriceSave sample_ambient sample_order
                        (sample_ui\<lparr>editPriceInput := Some (Fin (- 1))\<rparr>) sample_reply))"
    by code_simp
  show ?thesis
    using v f e
      local_errors_never_submitted
        [of sample_ambient sample_order "sample_ui\<lparr>slPrice := Some (Fin 100)\<rparr>" "''Adjust''" "''OPEN''"
            None sample_reply]
      local_errors_never_submitted
        [of "sample_ambient\<lparr>sheet_ltp := Some (Fin 2500)\<rparr>" sample_order
            "sample_ui\<lparr>addLotInput := ''1''\<rparr>" "''Adjust''" "''OPEN''" "Some sample_funds" sample_reply]
      local_errors_never_submitted
        [of sample_ambient sample_order "sample_ui\<lparr>editPriceInput := Some (Fin (- 1))\<rparr>"
            "''Adjust''" "''OPEN''" None sample_reply]
    by blast
qed


subsection \<open>Close price\<close>








subsection \<open>Lots and quantity\<close>

text \<open>
  Claim C9. Every Adjust\<open>\<rightarrow>\<close>OPEN mutation carries as \<open>lots\<close> the string of
  \<open>currentLots + parsedAddLots\<close> and as \<open>quantity\<close> that sum times \<open>lotSize\<close>.
\<close>

theorem open_payload_lots_quantity:
  "(FetchUpdateOrder p \<in> set (handleAction c so u a ''OPEN'' fr r) \<longrightarrow>
      field p ''lots'' = Some (JStrOfNum (jadd (currentLots so) (parsedAddLots u)))
    \<and> field p ''quantity'' = Some (JNum (jmul (jadd (currentLots so) (parsedAddLots u)) (lotSize so))))
   \<and> (FetchUpdateOrder p \<in> set (handleAction c so u a ''OPEN'' fr r)
       \<and> currentLots so = Fin k \<and> parsedAddLots u = Fin n \<and> lotSize so = Fin l \<longrightarrow>
      field p ''lots'' = Some (JStrOfNum (Fin (k + n)))
    \<and> field p ''quantity'' = Some (JNum (Fin ((k + n) * l))))"
  by (auto dest!: mutation_handleAction
           simp: open_payload_def field_def targetTotalLots_def targetTotalQuantity_def)


text \<open>Three lots of 25 and two more: \<open>lots\<close> is 5 and \<open>quantity\<close> is 125.\<close>

theorem open_payload_lots_quantity_witness:
  "FetchUpdateOrder (open_payload sample_ambient sample_order (sample_ui\<lparr>addLotInput := ''2''\<rparr>))
     \<in> set (handleAction sample_ambient sample_order (sample_ui\<lparr>addLotInput := ''2''\<rparr>)
                ''Adjust'' ''OPEN'' (Some sample_funds) sample_reply)
   \<and> currentLots sample_order = Fin 3
   \<and> parsedAddLots (sample_ui\<lparr>addLotInput := ''2''\<rparr>) = Fin 2
   \<and> lotSize sample_order = Fin 25
   \<and> field (open_payload sample_ambient sample_order (sample_ui\<lparr>addLotInput := ''2''\<rparr>)) ''lots''
       = Some (JStrOfNum (Fin 5))
   \<and> field (open_payload sample_ambient sample_order (sample_ui\<lparr>addLotInput := ''2''\<rparr>)) ''quantity''
       = Some (JNum (Fin 125))"
proof -
  let ?u = "sample_ui\<lparr>addLotInput := ''2''\<rparr>"
  have sent: "FetchUpdateOrder (open_payload sample_ambient sample_order ?u)
                \<in> set (handleAction sample_ambient sample_order ?u ''Adjust'' ''OPEN''
                          (Some sample_funds) sample_reply)"
    by code_simp
  have vals: "currentLots sample_order = Fin 3" "parsedAddLots ?u = Fin 2" "lotSize sample_order = Fin 25"
    by code_simp+
  from open_payload_lots_quantity
         [of "open_payload sample_ambient sample_order ?u" sample_ambient sample_order ?u "''Adjust''"
             "Some sample_funds" sample_reply 3 2 25]
       sent vals
  show ?thesis by simp
qed


subsection \<open>Product\<close>

text \<open>
  Claim C10. Every Adjust\<open>\<rightarrow>\<close>OPEN mutation carries the product \<open>MIS\<close>, whatever the product of
  the order, although the fund check before it compares the required amount with the
  intraday limit less the used limit for a \<open>MIS\<close> order and with the overnight limit for any
  other.
\<close>

theorem open_payload_product:
  "(FetchUpdateOrder p \<in> set (handleAction c so u a ''OPEN'' fr r) \<longrightarrow>
      field p ''product'' = Some (JStr ''MIS''))
   \<and> (sl_target_error c so u = None \<and> jgt (parsedAddLots u) (Fin 0) \<longrightarrow>
        list_ex funds_message (errors (handleAction c so u ''Adjust'' ''OPEN'' (Some fd) r))
          = jgt (requiredAmount c so u)
                (if product so = Some ''MIS''
                 then jsub (limit_or_0 (intraday fd) available_limit)
                           (limit_or_0 (intraday fd) used_limit)
                 else limit_or_0 (overnight fd) available_limit))"
proof (intro conjI impI)
  assume "FetchUpdateOrder p \<in> set (handleAction c so u a ''OPEN'' fr r)"
  then have "p = open_payload c so u"
    using mutation_handleAction [of p c so u a "''OPEN''" fr r] by simp
  then show "field p ''product'' = Some (JStr ''MIS'')"
    by (simp add: open_payload_def field_def)
next
  assume "sl_target_error c so u = None \<and> jgt (parsedAddLots u) (Fin 0)"
  then show "list_ex funds_message (errors (handleAction c so u ''Adjust'' ''OPEN'' (Some fd) r))
          = jgt (requiredAmount c so u)
                (if product so = Some ''MIS''
                 then jsub (limit_or_0 (intraday fd) available_limit)
                           (limit_or_0 (intraday fd) used_limit)
                 else limit_or_0 (overnight fd) available_limit)"
    unfolding availableLimit_eq using fund_check_core [of c so u fd r] by blast
qed


text \<open>
  An order of product \<open>NRML\<close>: one lot added at 100 is submitted with product \<open>MIS\<close>; two lots
  at 1200 need 60000, which the intraday limit would cover and the overnight limit of 50000
  does not, and are rejected.
\<close>

theorem open_payload_product_witness:
  "FetchUpdateOrder (open_payload sample_ambient (sample_order\<lparr>product := Some ''NRML''\<rparr>)
                       (sample_ui\<lparr>addLotInput := ''1''\<rparr>))
     \<in> set (handleAction sample_ambient (sample_order\<lparr>product := Some ''NRML''\<rparr>)
                (sample_ui\<lparr>addLotInput := ''1''\<rparr>) ''Adjust'' ''OPEN'' (Some sample_funds) sample_reply)
   \<and> field (open_payload sample_ambient (sample_order\<lparr>product := Some ''NRML''\<rparr>)
               (sample_ui\<lparr>addLotInput := ''1''\<rparr>)) ''product'' = Some (JStr ''MIS'')
   \<and> sl_target_error (sample_ambient\<lparr>sheet_ltp := Some (Fin 1200)\<rparr>)
        (sample_order\<lparr>product := Some ''NRML''\<rparr>) (sample_ui\<lparr>addLotInput := ''2''\<rparr>) = None
   \<and> jgt (parsedAddLots (sample_ui\<lparr>addLotInput := ''2''\<rparr>)) (Fin 0)
   \<and> list_ex funds_message
        (errors (handleAction (sample_ambient\<lparr>sheet_ltp := Some (Fin 1200)\<rparr>)
                   (sample_order\<lparr>product := Some ''NRML''\<rparr>) (sample_ui\<lparr>addLotInput := ''2''\<rparr>)
                   ''Adjust'' ''OPEN'' (Some sample_funds) sample_reply))"
proof -
  let ?so = "sample_order\<lparr>product := Some ''NRML''\<rparr>"
  let ?c = "sample_ambient\<lparr>sheet_ltp := Some (Fin 1200)\<rparr>"
  let ?u1 = "sample_ui\<lparr>addLotInput := ''1''\<rparr>"
  let ?u2 = "sample_ui\<lparr>addLotInput := ''2''\<rparr>"
  have sent: "FetchUpdateOrder (open_payload sample_ambient ?so ?u1)
                \<in> set (handleAction sample_ambient ?so ?u1 ''Adjust'' ''OPEN'' (Some sample_funds) sample_reply)"
    by code_simp
  have valid: "sl_target_error ?c ?so ?u2 = None"
    by (simp add: sl_target_error_unset sample_ui_def)
  have lots: "jgt (parsedAddLots ?u2) (Fin 0)"
    by code_simp
  have over: "jgt (requiredAmount ?c ?so ?u2)
                (if product ?so = Some ''MIS''
                 then jsub (limit_or_0 (intraday sample_funds) available_limit)
                           (limit_or_0 (intraday sample_funds) used_limit)
                 else limit_or_0 (overnight sample_funds) available_limit)"
    by code_simp
  note inst1 = open_payload_product
                 [of "open_payload sample_ambient ?so ?u1" sample_ambient ?so ?u1 "''Adjust''"
                     "Some sample_funds" sample_reply sample_funds, THEN conjunct1]
  note inst2 = open_payload_product
                 [of "open_payload sample_ambient ?so ?u1" ?c ?so ?u2 "''Adjust''"
                     "Some sample_funds" sample_reply sample_funds, THEN conjunct2]
  from inst1 sent have "field (open_payload sample_ambient ?so ?u1) ''product'' = Some (JStr ''MIS'')"
    by blast
  moreover from inst2 valid lots over have
    "list_ex funds_message
       (errors (handleAction ?c ?so ?u2 ''Adjust'' ''OPEN'' (Some sample_funds) sample_reply))"
    by blast
  ultimately show ?thesis
    using sent valid lots by blast
qed


section \<open>Properties of the sampling loops\<close>

lemma scan_token_unchanged:
  "\<not> tick_differs ticks chain tp \<Longrightarrow> scan_token ticks chain acc tp = acc"
  by (auto simp: tick_differs_def scan_token_def split: option.splits)

lemma scan_all_unchanged:
  "\<forall>tp \<in> set tokenMap. \<not> tick_differs ticks chain tp \<Longrightarrow>
     foldl (scan_token ticks chain) acc tokenMap = acc"
  by (induction tokenMap arbitrary: acc) (simp_all add: scan_token_unchanged)


text \<open>
  The loop of the option chain publishes only on a change: a call that sets the chain data
  has found a token whose tick differs from the chain.
\<close>

lemma option_chain_publish_only_on_change:
  assumes "list_ex publishes (fst (updateLoop_useOptionChain chainDataRef ticks tokenMap timestamp lastUpdate))"
  shows "\<exists>currentChain. chainDataRef = Some currentChain
           \<and> list_ex (tick_differs ticks currentChain) tokenMap"
proof (rule ccontr)
  assume no: "\<not> (\<exists>currentChain. chainDataRef = Some currentChain
           \<and> list_ex (tick_differs ticks currentChain) tokenMap)"
  show False
  proof (cases chainDataRef)
    case None
    with assms show False by (simp add: updateLoop_useOptionChain_def split: if_splits)
  next
    case (Some currentChain)
    with no have "\<forall>tp \<in> set tokenMap. \<not> tick_differs ticks currentChain tp"
      by (simp add: list_ex_iff)
    then have "foldl (scan_token ticks currentChain) [] tokenMap = []"
      by (rule scan_all_unchanged)
    with assms Some show False
      by (simp add: updateLoop_useOptionChain_def Let_def split: if_splits)
  qed
qed


text \<open>
  With the tick of 100 for the call at 95, the first due call publishes the chain with the
  call at 100; the next due call, the tick being the same, publishes nothing.
\<close>

lemma option_chain_identical_tick_once:
  "updateLoop_useOptionChain (Some sample_chain) sample_ticks sample_tokenMap 50 0
     = ([SetChainData
           [\<lparr>strike = 24000,
             call = Some \<lparr>leg_token = Some ''256265'', ltp = Some (Fin 100)\<rparr>,
             put = Some \<lparr>leg_token = Some ''256266'', ltp = Some (Fin 80)\<rparr>\<rparr>],
         RequestAnimationFrame],
        Some [\<lparr>strike = 24000,
               call = Some \<lparr>leg_token = Some ''256265'', ltp = Some (Fin 100)\<rparr>,
               put = Some \<lparr>leg_token = Some ''256266'', ltp = Some (Fin 80)\<rparr>\<rparr>],
        50)
   \<and> updateLoop_useOptionChain
        (Some [\<lparr>strike = 24000,
                call = Some \<lparr>leg_token = Some ''256265'', ltp = Some (Fin 100)\<rparr>,
                put = Some \<lparr>leg_token = Some ''256266'', ltp = Some (Fin 80)\<rparr>\<rparr>])
        sample_ticks sample_tokenMap 100 50
     = ([RequestAnimationFrame],
        Some [\<lparr>strike = 24000,
               call = Some \<lparr>leg_token = Some ''256265'', ltp = Some (Fin 100)\<rparr>,
               put = Some \<lparr>leg_token = Some ''256266'', ltp = Some (Fin 80)\<rparr>\<rparr>],
        50)"
  by code_simp


text \<open>
  The loop of the order list publishes on every due call that finds a tick for one of its
  instruments; it compares with nothing.
\<close>

lemma order_list_publishes_whenever_tick_present:
  assumes "200 \<le> timestamp - lastUpdate"
    and "list_ex (\<lambda>tickKey. map_of ticksMap tickKey \<noteq> None) currentData"
  shows "list_ex publishes (fst (updateLoop_OpenOrder (Some ticksMap) (Some currentData) timestamp lastUpdate))
         \<and> snd (updateLoop_OpenOrder (Some ticksMap) (Some currentData) timestamp lastUpdate) = timestamp"
proof -
  from assms(2) have "currentData \<noteq> []" by auto
  with assms show ?thesis
    by (simp add: updateLoop_OpenOrder_def Let_def)
qed


text \<open>
  Claim C5 at the order list. With one instrument and one unchanged tick, the due call at
  200 ms publishes the tick and the due call at 400 ms publishes the same tick again.
\<close>

theorem order_list_republishes_identical_tick:
  "updateLoop_OpenOrder (Some sample_ticks) (Some [''256265'']) 200 0
     = ([SetLiveTicks [(''256265'', \<lparr>tick_ltp = Some (Fin 100)\<rparr>)], RequestAnimationFrame], 200)
   \<and> updateLoop_OpenOrder (Some sample_ticks) (Some [''256265'']) 400 200
     = ([SetLiveTicks [(''256265'', \<lparr>tick_ltp = Some (Fin 100)\<rparr>)], RequestAnimationFrame], 400)"
  by (simp add: updateLoop_OpenOrder_def sample_ticks_def)

end
